theory Spec2Isabelle
  imports Complex_Main "HOL-Library.Word"
begin

section \<open>A software rasterization pipeline (rasterizer/pipeline.cpp)\<close>

text \<open>
  The development embeds \<^verbatim>\<open>Pipeline::run\<close>, \<^verbatim>\<open>lerp\<close>, \<^verbatim>\<open>clip_line\<close>,
  \<^verbatim>\<open>clip_triangle\<close>, \<^verbatim>\<open>rasterize_line\<close> and \<^verbatim>\<open>rasterize_triangle\<close>.

  Conventions of the embedding:
  \<^item> \<^verbatim>\<open>float\<close> and \<^verbatim>\<open>double\<close> values are real numbers and their arithmetic is exact:
    rounding, overflow, infinities and NaN are not modelled.
  \<^item> where the program divides by zero it obtains an infinity or a NaN and goes on with
    it; it may then emit nothing, or never return (a loop bound that is infinite). This
    is outside the embedding: a stage that would divide by zero yields the error
    \<open>Not_finite\<close>, and nothing is said about what the program does then. The
    divisions concerned are the one by \<open>w\<close> in \<^verbatim>\<open>emit_vertex\<close> and those of the flat
    triangle rasterizer; in \<^verbatim>\<open>clip_line\<close> and \<^verbatim>\<open>rasterize_line\<close> every division that is
    evaluated has a divisor that the tests before it keep away from zero.
  \<^item> \<^verbatim>\<open>int\<close> and \<^verbatim>\<open>int32_t\<close> loop counters and pixel coordinates are unbounded
    integers; \<^verbatim>\<open>(int32_t)std::floor(v)\<close> is \<open>\<lfloor>v\<rfloor>\<close>. The \<^verbatim>\<open>uint32_t\<close> counter
    \<^verbatim>\<open>out_of_range\<close> is a 32-bit word.
  \<^item> \<^verbatim>\<open>std::array\<close> attribute tuples are lists; all attribute lists of one pipeline have
    the same length.
  \<^item> the \<^verbatim>\<open>emit_vertex\<close> and \<^verbatim>\<open>emit_fragment\<close> callbacks append to a vector: each stage
    returns the list of what it emits, in emission order.
  \<^item> writes to \<^verbatim>\<open>std::cout\<close> are not modelled.
\<close>

subsection \<open>Data model\<close>

record Vec3 =
  x3 :: real
  y3 :: real
  z3 :: real

record Vec4 =
  x4 :: real
  y4 :: real
  z4 :: real
  w4 :: real

type_synonym Vec2 = "real \<times> real"

text \<open>A colour: red, green, blue.\<close>

type_synonym Spectrum = "real \<times> real \<times> real"

record ShadedVertex =
  clip_position :: Vec4
  sv_attributes :: "real list"

record ClippedVertex =
  cv_fb_position :: Vec3
  inv_w :: real
  cv_attributes :: "real list"

record Fragment =
  fb_position :: Vec3
  attributes :: "real list"
  derivatives :: "Vec2 list"

record ShadedFragment =
  sf_fb_position :: Vec3
  color :: Spectrum
  opacity :: real

datatype PrimitiveType = Lines | Triangles

text \<open>
  Modelled from the spec: \<^verbatim>\<open>pipeline.h\<close>, which declares the flag bits
  (\<^verbatim>\<open>PipelineMask_Depth\<close>, \<^verbatim>\<open>Pipeline_Depth_Less\<close>, \<^verbatim>\<open>Pipeline_DepthWriteDisableBit\<close>,
  ...), is missing. The \<^verbatim>\<open>flags\<close> template argument is the configuration set of the
  spec: a depth mode, a blend mode, an interpolation mode and the two write-disable bits.
\<close>

datatype DepthMode = Depth_Always | Depth_Never | Depth_Less

datatype BlendMode = Blend_Replace | Blend_Add | Blend_Over

datatype InterpMode = Interp_Flat | Interp_Smooth | Interp_Correct

record Flags =
  Depth :: DepthMode
  DepthWriteDisableBit :: bool
  ColorWriteDisableBit :: bool
  Blend :: BlendMode
  Interp :: InterpMode

text \<open>
  Modelled from the spec: \<^verbatim>\<open>programs.h\<close> is missing. A program supplies the two
  pure shading functions over its parameters \<open>'p\<close>; \<open>FD\<close> is the number of
  derivative slots of a fragment (the size of \<^verbatim>\<open>Fragment::derivatives\<close>).
\<close>

record 'p Program =
  shade_vertex :: "'p \<Rightarrow> real list \<Rightarrow> Vec4 \<times> real list"
  shade_fragment :: "'p \<Rightarrow> real list \<Rightarrow> Vec2 list \<Rightarrow> Spectrum \<times> real"
  FD :: nat

text \<open>
  How a call can fail: the framebuffer pointer is null (the assertion at the start of
  \<^verbatim>\<open>run\<close>); \<^verbatim>\<open>rasterize_line\<close> is called outside flat interpolation mode (its
  assertion); a framebuffer accessor is called with coordinates outside the framebuffer;
  a division by zero (see the conventions above).
\<close>

datatype error =
  Null_framebuffer
| Assert_flat_only
| Out_of_bounds
| Not_finite

text \<open>
  Modelled from the spec: \<^verbatim>\<open>framebuffer.h\<close> is missing. The framebuffer owns one
  depth cell and one colour cell per pixel. Its accessors \<^verbatim>\<open>depth_at(x, y, 0)\<close> and
  \<^verbatim>\<open>color_at(x, y, 0)\<close> return a reference to a cell; the coordinates passed to them
  must lie in \<open>[0, width) \<times> [0, height)\<close>, which the caller has to check before. Here
  the cells are \<open>depths\<close> and \<open>colors\<close>, a reference is the coordinate of its cell,
  and an accessor called with coordinates outside the framebuffer fails.
\<close>

record Framebuffer =
  width :: nat
  height :: nat
  depths :: "int \<times> int \<Rightarrow> real"
  colors :: "int \<times> int \<Rightarrow> Spectrum"

definition depth_at :: "Framebuffer \<Rightarrow> int \<Rightarrow> int \<Rightarrow> error + int \<times> int" where
  "depth_at F px py =
     (if 0 \<le> px \<and> px < int (width F) \<and> 0 \<le> py \<and> py < int (height F)
      then Inr (px, py) else Inl Out_of_bounds)"

definition color_at :: "Framebuffer \<Rightarrow> int \<Rightarrow> int \<Rightarrow> error + int \<times> int" where
  "color_at F px py =
     (if 0 \<le> px \<and> px < int (width F) \<and> 0 \<le> py \<and> py < int (height F)
      then Inr (px, py) else Inl Out_of_bounds)"

datatype diagnostic =
  Warn_clip_line "32 word"
| Warn_clip_triangle "32 word"

subsection \<open>Depth test, shading and blending (the fragment loop of \<^verbatim>\<open>run\<close>)\<close>

text \<open>
  The state of the fragment loop: the framebuffer; the counter \<^verbatim>\<open>out_of_range\<close>; the
  trace of the calls of \<^verbatim>\<open>Program::shade_fragment\<close>, each with the fragment passed to
  it and the \<^verbatim>\<open>ShadedFragment\<close> it filled in; and the trace of the calls of the
  framebuffer accessors with the coordinates passed to them.
\<close>

datatype access =
  Depth_access int int
| Color_access int int

record frag_state =
  fb :: Framebuffer
  out_of_range :: "32 word"
  shaded :: "(Fragment \<times> ShadedFragment) list"
  accessed :: "access list"

definition in_range :: "Framebuffer \<Rightarrow> Fragment \<Rightarrow> bool" where
  "in_range F f =
     (let px = \<lfloor>x3 (fb_position f)\<rfloor>; py = \<lfloor>y3 (fb_position f)\<rfloor>
      in \<not> (px < 0 \<or> int (width F) \<le> px \<or> py < 0 \<or> int (height F) \<le> py))"

text \<open>
  The colour stored for a shaded fragment. All three branches of the source assign the
  shaded colour (the branches for \<^verbatim>\<open>Add\<close> and \<^verbatim>\<open>Over\<close> are
  \<^verbatim>\<open>fb_color = sf.color; //<-- replace this line\<close>).
\<close>

fun blend_color :: "BlendMode \<Rightarrow> Spectrum \<Rightarrow> Spectrum \<Rightarrow> real \<Rightarrow> Spectrum" where
  "blend_color Blend_Replace fb_color sf_color sf_opacity = sf_color"
| "blend_color Blend_Add fb_color sf_color sf_opacity = sf_color"
| "blend_color Blend_Over fb_color sf_color sf_opacity = sf_color"

text \<open>
  The depth test: whether the fragment is kept. Mode \<^verbatim>\<open>Never\<close> discards the fragment
  (\<^verbatim>\<open>continue\<close>); mode \<^verbatim>\<open>Always\<close> has no statement; in mode \<^verbatim>\<open>Less\<close> the source
  has no statement either (only the comment of the task to implement the test), so
  control reaches the depth write as in mode \<^verbatim>\<open>Always\<close>.
\<close>

fun depth_test :: "DepthMode \<Rightarrow> real \<Rightarrow> real \<Rightarrow> bool" where
  "depth_test Depth_Always fb_depth z = True"
| "depth_test Depth_Never fb_depth z = False"
| "depth_test Depth_Less fb_depth z = True"

text \<open>
  The shading of a fragment: \<^verbatim>\<open>sf.fb_position = f.fb_position\<close>, then the call of
  \<^verbatim>\<open>Program::shade_fragment\<close>, which fills in \<^verbatim>\<open>sf.color\<close> and \<^verbatim>\<open>sf.opacity\<close>.
\<close>

definition shaded_fragment :: "'p Program \<Rightarrow> 'p \<Rightarrow> Fragment \<Rightarrow> ShadedFragment" where
  "shaded_fragment prog parameters f =
     (case shade_fragment prog parameters (attributes f) (derivatives f) of
        (sf_color, sf_opacity) \<Rightarrow>
          \<lparr>sf_fb_position = fb_position f, color = sf_color, opacity = sf_opacity\<rparr>)"

text \<open>
  One iteration of the loop over the fragments: the range check; the two accessor calls
  that give \<^verbatim>\<open>fb_depth\<close> and \<^verbatim>\<open>fb_color\<close>; the depth test; the depth write; the
  shading; the colour write.
\<close>

definition process_fragment ::
  "'p Program \<Rightarrow> Flags \<Rightarrow> 'p \<Rightarrow> Fragment \<Rightarrow> frag_state \<Rightarrow> error + frag_state" where
  "process_fragment prog flags parameters f st =
     (let px = \<lfloor>x3 (fb_position f)\<rfloor>; py = \<lfloor>y3 (fb_position f)\<rfloor>; F = fb st
      in if px < 0 \<or> int (width F) \<le> px \<or> py < 0 \<or> int (height F) \<le> py
         then Inr (st\<lparr>out_of_range := out_of_range st + 1\<rparr>)
         else
           (case depth_at F px py of
              Inl e \<Rightarrow> Inl e
            | Inr fb_depth \<Rightarrow>
           (case color_at F px py of
              Inl e \<Rightarrow> Inl e
            | Inr fb_color \<Rightarrow>
           (let st1 = st\<lparr>accessed :=
                            accessed st @ [Depth_access px py, Color_access px py]\<rparr>
            in if \<not> depth_test (Depth flags) (depths F fb_depth) (z3 (fb_position f))
               then Inr st1
               else
                 (let F1 = (if \<not> DepthWriteDisableBit flags
                            then F\<lparr>depths := (depths F)(fb_depth := z3 (fb_position f))\<rparr>
                            else F);
                      sf = shaded_fragment prog parameters f;
                      F2 = (if \<not> ColorWriteDisableBit flags
                            then F1\<lparr>colors := (colors F1)(fb_color :=
                                     blend_color (Blend flags) (colors F1 fb_color)
                                       (color sf) (opacity sf))\<rparr>
                            else F1)
                  in Inr (st1\<lparr>fb := F2, shaded := shaded st @ [(f, sf)]\<rparr>))))))"

text \<open>The loop; it stops at the first failure.\<close>

fun process_fragments ::
  "'p Program \<Rightarrow> Flags \<Rightarrow> 'p \<Rightarrow> Fragment list \<Rightarrow> frag_state \<Rightarrow> error + frag_state" where
  "process_fragments prog flags parameters [] st = Inr st"
| "process_fragments prog flags parameters (f # fs) st =
     (case process_fragment prog flags parameters f st of
        Inl e \<Rightarrow> Inl e
      | Inr st' \<Rightarrow> process_fragments prog flags parameters fs st')"

text \<open>The warning after the loop names the clip function of the pipeline's topology.\<close>

definition warning :: "PrimitiveType \<Rightarrow> 32 word \<Rightarrow> diagnostic option" where
  "warning primitive_type n =
     (if n > 0
      then (case primitive_type of
              Lines \<Rightarrow> Some (Warn_clip_line n)
            | Triangles \<Rightarrow> Some (Warn_clip_triangle n))
      else None)"

subsection \<open>Clipping\<close>

text \<open>\<^verbatim>\<open>lerp\<close>: the position and every attribute are \<open>(b - a) * t + a\<close>.\<close>

definition lerp :: "ShadedVertex \<Rightarrow> ShadedVertex \<Rightarrow> real \<Rightarrow> ShadedVertex" where
  "lerp a b t =
     \<lparr>clip_position =
        \<lparr>x4 = (x4 (clip_position b) - x4 (clip_position a)) * t + x4 (clip_position a),
         y4 = (y4 (clip_position b) - y4 (clip_position a)) * t + y4 (clip_position a),
         z4 = (z4 (clip_position b) - z4 (clip_position a)) * t + z4 (clip_position a),
         w4 = (w4 (clip_position b) - w4 (clip_position a)) * t + w4 (clip_position a)\<rparr>,
      sv_attributes =
        map (\<lambda>(bi, ai). (bi - ai) * t + ai) (zip (sv_attributes b) (sv_attributes a))\<rparr>"

text \<open>
  The helper \<^verbatim>\<open>clip_range\<close> of \<^verbatim>\<open>clip_line\<close>: it restricts the range
  \<open>(min_t, max_t)\<close> to the part where \<open>l + t * dl \<le> r + t * dr\<close>.
\<close>

definition clip_range :: "real \<Rightarrow> real \<Rightarrow> real \<Rightarrow> real \<Rightarrow> real \<times> real \<Rightarrow> real \<times> real" where
  "clip_range l dl r dr rng =
     (case rng of (min_t, max_t) \<Rightarrow>
        if dr = dl then (if l - r > 0 then (1, 0) else (min_t, max_t))
        else if dr > dl then (max min_t ((l - r) / (dr - dl)), max_t)
        else (min_t, min max_t ((l - r) / (dr - dl))))"

text \<open>The range left by the six calls of \<^verbatim>\<open>clip_range\<close>, starting from \<open>(0, 1)\<close>.\<close>

definition clip_t_range :: "ShadedVertex \<Rightarrow> ShadedVertex \<Rightarrow> real \<times> real" where
  "clip_t_range va vb =
     (let a = clip_position va; b = clip_position vb;
          bax = x4 b - x4 a; bay = y4 b - y4 a; baz = z4 b - z4 a; baw = w4 b - w4 a
      in clip_range (z4 a) baz (w4 a) baw
          (clip_range (- w4 a) (- baw) (z4 a) baz
            (clip_range (y4 a) bay (w4 a) baw
              (clip_range (- w4 a) (- baw) (y4 a) bay
                (clip_range (x4 a) bax (w4 a) baw
                  (clip_range (- w4 a) (- baw) (x4 a) bax (0, 1)))))))"

definition clip_line :: "Flags \<Rightarrow> ShadedVertex \<Rightarrow> ShadedVertex \<Rightarrow> ShadedVertex list" where
  "clip_line flags va vb =
     (case clip_t_range va vb of (min_t, max_t) \<Rightarrow>
        if min_t < max_t
        then [if min_t = 0 then va
              else (if Interp flags = Interp_Flat
                    then (lerp va vb min_t)\<lparr>sv_attributes := sv_attributes va\<rparr>
                    else lerp va vb min_t),
              if max_t = 1 then vb
              else (if Interp flags = Interp_Flat
                    then (lerp va vb max_t)\<lparr>sv_attributes := sv_attributes va\<rparr>
                    else lerp va vb max_t)]
        else [])"

text \<open>
  \<^verbatim>\<open>clip_triangle\<close> emits its three arguments (the body is the placeholder under
  \<^verbatim>\<open>// TODO: correct code!\<close>).
\<close>

definition clip_triangle ::
  "Flags \<Rightarrow> ShadedVertex \<Rightarrow> ShadedVertex \<Rightarrow> ShadedVertex \<Rightarrow> ShadedVertex list" where
  "clip_triangle flags va vb vc = [va, vb, vc]"

text \<open>The clip volume \<open>-w \<le> x, y, z \<le> w\<close> of a clip-space position.\<close>

definition in_clip_volume :: "Vec4 \<Rightarrow> bool" where
  "in_clip_volume p =
     (- w4 p \<le> x4 p \<and> x4 p \<le> w4 p \<and> - w4 p \<le> y4 p \<and> y4 p \<le> w4 p \<and>
      - w4 p \<le> z4 p \<and> z4 p \<le> w4 p)"

text \<open>
  The helper \<^verbatim>\<open>emit_vertex\<close> of \<^verbatim>\<open>run\<close>: the perspective divide and the map to
  framebuffer coordinates, with scale and offset \<open>(width / 2, height / 2, 1 / 2)\<close>. It
  divides by \<open>w\<close>.
\<close>

definition emit_vertex :: "Framebuffer \<Rightarrow> ShadedVertex \<Rightarrow> error + ClippedVertex" where
  "emit_vertex F sv =
     (if w4 (clip_position sv) = 0 then Inl Not_finite
      else
        (let iw = 1 / w4 (clip_position sv)
         in Inr \<lparr>cv_fb_position =
                  \<lparr>x3 = real (width F) / 2 * iw * x4 (clip_position sv)
                          + 0.5 * real (width F),
                   y3 = real (height F) / 2 * iw * y4 (clip_position sv)
                          + 0.5 * real (height F),
                   z3 = 0.5 * iw * z4 (clip_position sv) + 0.5\<rparr>,
                 inv_w = iw,
                 cv_attributes = sv_attributes sv\<rparr>))"

text \<open>\<^verbatim>\<open>emit_vertex\<close> on every vertex the clipping functions emit, in order.\<close>

fun emit_vertices :: "Framebuffer \<Rightarrow> ShadedVertex list \<Rightarrow> error + ClippedVertex list" where
  "emit_vertices F [] = Inr []"
| "emit_vertices F (sv # svs) =
     (case emit_vertex F sv of
        Inl e \<Rightarrow> Inl e
      | Inr cv \<Rightarrow>
          (case emit_vertices F svs of
             Inl e \<Rightarrow> Inl e
           | Inr cvs \<Rightarrow> Inr (cv # cvs)))"

text \<open>
  The assembly loops of \<^verbatim>\<open>run\<close>: vertices are taken two (three) at a time, and a
  trailing incomplete group is ignored.
\<close>

fun clip_lines :: "Flags \<Rightarrow> ShadedVertex list \<Rightarrow> ShadedVertex list" where
  "clip_lines flags (a # b # rest) = clip_line flags a b @ clip_lines flags rest"
| "clip_lines flags _ = []"

fun clip_triangles :: "Flags \<Rightarrow> ShadedVertex list \<Rightarrow> ShadedVertex list" where
  "clip_triangles flags (a # b # c # rest) =
     clip_triangle flags a b c @ clip_triangles flags rest"
| "clip_triangles flags _ = []"

subsection \<open>Line rasterization\<close>

text \<open>The constant \<^verbatim>\<open>FLT_EPSILON\<close> of the C library: \<open>2\<^sup>-\<^sup>2\<^sup>3\<close>.\<close>

definition FLT_EPSILON :: real where
  "FLT_EPSILON = 1 / 2 ^ 23"

text \<open>
  The fragment both rasterizers emit for pixel \<open>(px, py)\<close>: its position is the pixel
  centre with depth \<open>z\<close>, its attributes are those of \<open>va\<close>, its derivatives are
  all \<open>(0, 0)\<close>.
\<close>

definition point :: "nat \<Rightarrow> ClippedVertex \<Rightarrow> int \<Rightarrow> int \<Rightarrow> real \<Rightarrow> Fragment" where
  "point fd va px py z =
     \<lparr>fb_position = \<lparr>x3 = of_int px + 0.5, y3 = of_int py + 0.5, z3 = z\<rparr>,
      attributes = cv_attributes va,
      derivatives = replicate fd (0, 0)\<rparr>"

text \<open>
  The depth written inside the loops of \<^verbatim>\<open>rasterize_line\<close>, for the loop counter
  \<open>u\<close> running between the coordinates \<open>a\<close> and \<open>b\<close>.
\<close>

definition interpolate_z ::
  "ClippedVertex \<Rightarrow> ClippedVertex \<Rightarrow> bool \<Rightarrow> real \<Rightarrow> real \<Rightarrow> int \<Rightarrow> real" where
  "interpolate_z va vb reversed a b u =
     (if reversed
      then (z3 (cv_fb_position va) * (of_int u + 0.5 - a)
            + z3 (cv_fb_position vb) * (b - of_int u - 0.5)) / (b - a)
      else (z3 (cv_fb_position vb) * (of_int u + 0.5 - a)
            + z3 (cv_fb_position va) * (b - of_int u - 0.5)) / (b - a))"

text \<open>
  The loops of \<^verbatim>\<open>rasterize_line\<close> all have the shape
  \<^verbatim>\<open>for ( ; u <= std::floor(b) - 1; u++) { emit; update }\<close>: the counter \<open>u\<close> runs
  along one axis, \<open>v\<close> is the coordinate on the other axis and \<open>eps\<close> the error term
  \<^verbatim>\<open>epsilon\<close>. The loops differ in the update \<open>adv\<close> of \<open>(v, eps)\<close> at the end of
  the body and in whether the counter is the pixel's x (\<open>swapped = False\<close>) or its y
  (\<open>swapped = True\<close>: the vertical case and the case of slope above 1). The result is
  the emitted fragments and the values of \<open>u\<close> and \<open>v\<close> after the loop.
\<close>

function line_loop ::
  "nat \<Rightarrow> ClippedVertex \<Rightarrow> ClippedVertex \<Rightarrow> bool \<Rightarrow> bool \<Rightarrow> (int \<times> real \<Rightarrow> int \<times> real) \<Rightarrow>
   real \<Rightarrow> real \<Rightarrow> int \<Rightarrow> int \<times> real \<Rightarrow> Fragment list \<times> int \<times> int" where
  "line_loop fd va vb reversed swapped adv a b u ve =
     (if real_of_int u \<le> of_int \<lfloor>b\<rfloor> - 1
      then (case line_loop fd va vb reversed swapped adv a b (u + 1) (adv ve) of
              (fs, u', v') \<Rightarrow>
                ((if swapped
                  then point fd va (fst ve) u (interpolate_z va vb reversed a b u)
                  else point fd va u (fst ve) (interpolate_z va vb reversed a b u)) # fs,
                 u', v'))
      else ([], u, fst ve))"
  by pat_completeness auto
termination
  by (relation "measure (\<lambda>(fd, va, vb, reversed, swapped, adv, a, b, u, ve). nat (\<lfloor>b\<rfloor> - u))")
     auto

declare line_loop.simps [simp del]

text \<open>
  The vertical case (\<open>\<bar>bx - ax\<bar> < FLT_EPSILON\<close>); \<open>ay0\<close>, \<open>by0\<close> are the y
  coordinates of \<open>va\<close>, \<open>vb\<close>.
\<close>

definition vertical_case ::
  "nat \<Rightarrow> ClippedVertex \<Rightarrow> ClippedVertex \<Rightarrow> real \<Rightarrow> real \<Rightarrow> real \<Rightarrow> Fragment list" where
  "vertical_case fd va vb ax ay0 by0 =
     (let reversed = (ay0 > by0);
          ay = (if ay0 > by0 then by0 else ay0);
          by = (if ay0 > by0 then ay0 else by0);
          px = \<lfloor>ax\<rfloor>;
          py = \<lfloor>ay\<rfloor>
      in (if \<bar>ay - of_int py - 0.5\<bar> + \<bar>ax - of_int px - 0.5\<bar> \<le> 0.5 \<or> ay \<le> of_int py + 0.5
          then [point fd va px py
                  (if reversed then z3 (cv_fb_position va) else z3 (cv_fb_position vb))]
          else []) @
         (case line_loop fd va vb reversed True id ay by (\<lfloor>ay\<rfloor> + 1) (px, 0) of
            (fs, py', _) \<Rightarrow>
              fs @
              (if \<bar>ay - of_int py' - 0.5\<bar> + \<bar>ax - of_int px - 0.5\<bar> \<le> 0.5
                  \<or> by \<ge> of_int py' + 0.5
               then [point fd va px py'
                       (if reversed then z3 (cv_fb_position vb) else z3 (cv_fb_position va))]
               else [])))"

text \<open>
  The horizontal case (\<open>\<bar>slope\<bar> < FLT_EPSILON\<close>), entered after the endpoints were
  ordered by x.
\<close>

definition horizontal_case ::
  "nat \<Rightarrow> ClippedVertex \<Rightarrow> ClippedVertex \<Rightarrow> bool \<Rightarrow> real \<Rightarrow> real \<Rightarrow> real \<Rightarrow> Fragment list" where
  "horizontal_case fd va vb reversed ax0 ay bx0 =
     (let ax = (if ax0 > bx0 then bx0 else ax0);
          bx = (if ax0 > bx0 then ax0 else bx0);
          px = \<lfloor>ax\<rfloor>;
          py = \<lfloor>ay\<rfloor>
      in (if \<bar>ay - of_int py - 0.5\<bar> + \<bar>ax - of_int px - 0.5\<bar> \<le> 0.5 \<or> ax < of_int px + 0.5
          then [point fd va px py
                  (if reversed then z3 (cv_fb_position vb) else z3 (cv_fb_position va))]
          else []) @
         (case line_loop fd va vb reversed False id ax bx (\<lfloor>ax\<rfloor> + 1) (py, 0) of
            (fs, px', _) \<Rightarrow>
              fs @
              (if \<bar>ay - of_int py - 0.5\<bar> + \<bar>ax - of_int px' - 0.5\<bar> \<le> 0.5
                  \<or> bx > of_int px' + 0.5
               then [point fd va px' py
                       (if reversed then z3 (cv_fb_position va) else z3 (cv_fb_position vb))]
               else [])))"

text \<open>The case of slope 1 (\<open>\<bar>slope - 1\<bar> < FLT_EPSILON\<close>).\<close>

definition diagonal_positive ::
  "nat \<Rightarrow> ClippedVertex \<Rightarrow> ClippedVertex \<Rightarrow> bool \<Rightarrow> real \<Rightarrow> real \<Rightarrow> real \<Rightarrow> real \<Rightarrow>
   Fragment list" where
  "diagonal_positive fd va vb reversed ax ay bx by =
     (let px0 = \<lfloor>ax\<rfloor>; py0 = \<lfloor>ay\<rfloor>;
          px = (if (ay - of_int py0) - (ax - of_int px0) < - 0.5 then px0 + 1 else px0);
          py = (if (ay - of_int py0) - (ax - of_int px0) < - 0.5 then py0
                else if (ay - of_int py0) - (ax - of_int px0) > 0.5 then py0 + 1 else py0)
      in fst (line_loop fd va vb reversed False (\<lambda>(v, e). (v + 1, e)) ax bx px (py, 0)) @
         (if \<bar>by - of_int \<lfloor>by\<rfloor> - 0.5\<bar> + \<bar>bx - of_int \<lfloor>bx\<rfloor> - 0.5\<bar> \<le> 0.5
             \<or> by - of_int \<lfloor>by\<rfloor> + bx - of_int \<lfloor>bx\<rfloor> > 1.5
          then [point fd va \<lfloor>bx\<rfloor> \<lfloor>by\<rfloor>
                  (if reversed then z3 (cv_fb_position va) else z3 (cv_fb_position vb))]
          else []))"

text \<open>
  The case of slope -1 (\<open>\<bar>slope + 1\<bar> < FLT_EPSILON\<close>). This block of the source has
  no \<^verbatim>\<open>return\<close>: the general cases below it run after it.
\<close>

definition diagonal_negative ::
  "nat \<Rightarrow> ClippedVertex \<Rightarrow> ClippedVertex \<Rightarrow> bool \<Rightarrow> real \<Rightarrow> real \<Rightarrow> real \<Rightarrow> real \<Rightarrow>
   Fragment list" where
  "diagonal_negative fd va vb reversed ax ay bx by =
     (let px0 = \<lfloor>ax\<rfloor>; py0 = \<lfloor>ay\<rfloor>;
          py = (if (ay - of_int py0) + (ax - of_int px0) < 0.5 then py0 - 1 else py0);
          px = (if (ay - of_int py0) + (ax - of_int px0) < 0.5 then px0
                else if (ay - of_int py0) + (ax - of_int px0) > 1.5 then px0 + 1 else px0)
      in fst (line_loop fd va vb reversed False (\<lambda>(v, e). (v - 1, e)) ax bx px (py, 0)) @
         (if \<bar>by - of_int \<lfloor>by\<rfloor> - 0.5\<bar> + \<bar>bx - of_int \<lfloor>bx\<rfloor> - 0.5\<bar> \<le> 0.5
             \<or> (by - of_int \<lfloor>by\<rfloor>) - (bx - of_int \<lfloor>bx\<rfloor>) < - 0.5
          then [point fd va \<lfloor>bx\<rfloor> \<lfloor>by\<rfloor>
                  (if reversed then z3 (cv_fb_position va) else z3 (cv_fb_position vb))]
          else []))"

text \<open>
  The two general cases. The source has the block twice: for \<open>slope < 1\<close> with the
  coordinates as they are, and for \<open>slope > 1\<close> with x and y interchanged, the slope
  replaced by \<^verbatim>\<open>invslope\<close> and the emitted pixel \<open>(y, x)\<close>. Here \<open>s\<close> is the slope
  or \<^verbatim>\<open>invslope\<close>, and \<open>swapped\<close> tells which block it is.
\<close>

definition general_case ::
  "nat \<Rightarrow> ClippedVertex \<Rightarrow> ClippedVertex \<Rightarrow> bool \<Rightarrow> bool \<Rightarrow> int \<Rightarrow> real \<Rightarrow>
   real \<Rightarrow> real \<Rightarrow> real \<Rightarrow> real \<Rightarrow> Fragment list" where
  "general_case fd va vb reversed swapped signslope s ax ay bx by =
     (let px0 = \<lfloor>ax\<rfloor>; py0 = \<lfloor>ay\<rfloor>;
          eps0 = ay - of_int py0 + (of_int px0 + 0.5 - ax) * s;
          (px, py, eps) =
             (if of_int py0 + s * (ax - of_int px0 - 0.5) > ay
              then (px0 + 1, py0, eps0 + s)
              else if ay + (of_int px0 + 0.5 - ax) * s \<ge> of_int py0 + 1
              then (px0, py0 + signslope, eps0 - 1)
              else if ax - of_int px0 + ay - of_int py0 > 1.5
              then (px0 + 1, py0 + signslope, eps0 + (s - 1))
              else (px0, py0, eps0))
      in case line_loop fd va vb reversed swapped
                (\<lambda>(v, e). if e > 1 - s then (v + signslope, e + (s - 1)) else (v, e + s))
                ax bx px (py, eps) of
           (fs, px', py') \<Rightarrow>
             fs @
             (if \<bar>by - of_int py' - 0.5\<bar> + \<bar>bx - of_int px' - 0.5\<bar> \<le> 0.5
                 \<or> bx > of_int px' + 0.5
              then [(if swapped
                     then point fd va py' px'
                            (if reversed then z3 (cv_fb_position va)
                             else z3 (cv_fb_position vb))
                     else point fd va px' py'
                            (if reversed then z3 (cv_fb_position va)
                             else z3 (cv_fb_position vb)))]
              else []))"

text \<open>The body of \<^verbatim>\<open>rasterize_line\<close> after the assertion.\<close>

definition line_fragments :: "nat \<Rightarrow> ClippedVertex \<Rightarrow> ClippedVertex \<Rightarrow> Fragment list" where
  "line_fragments fd va vb =
     (let ax0 = x3 (cv_fb_position va); ay0 = y3 (cv_fb_position va);
          bx0 = x3 (cv_fb_position vb); by0 = y3 (cv_fb_position vb)
      in if \<lfloor>ax0\<rfloor> = \<lfloor>bx0\<rfloor> \<and> \<lfloor>ay0\<rfloor> = \<lfloor>by0\<rfloor> then []
         else if \<bar>bx0 - ax0\<bar> < FLT_EPSILON then vertical_case fd va vb ax0 ay0 by0
         else
           (let reversed = (bx0 < ax0);
                ax = (if bx0 < ax0 then bx0 else ax0);
                ay = (if bx0 < ax0 then by0 else ay0);
                bx = (if bx0 < ax0 then ax0 else bx0);
                by = (if bx0 < ax0 then ay0 else by0);
                slope = (by - ay) / (bx - ax)
            in if \<bar>slope\<bar> < FLT_EPSILON then horizontal_case fd va vb reversed ax ay bx
               else if \<bar>slope - 1\<bar> < FLT_EPSILON
               then diagonal_positive fd va vb reversed ax ay bx by
               else
                 (if \<bar>slope + 1\<bar> < FLT_EPSILON
                  then diagonal_negative fd va vb reversed ax ay bx by else []) @
                 (let signslope = (if slope < 0 then - 1 else 1);
                      slope' = (if slope < 0 then (- 1) * slope else slope)
                  in if slope' < 1
                     then general_case fd va vb reversed False signslope slope' ax ay bx by
                     else if slope' > 1
                     then general_case fd va vb reversed True signslope (1 / slope')
                            ay ax by bx
                     else [])))"

text \<open>
  \<^verbatim>\<open>rasterize_line\<close>: outside flat interpolation mode the assertion fails.
\<close>

definition rasterize_line ::
  "Flags \<Rightarrow> nat \<Rightarrow> ClippedVertex \<Rightarrow> ClippedVertex \<Rightarrow> error + Fragment list" where
  "rasterize_line flags fd va vb =
     (if Interp flags \<noteq> Interp_Flat then Inl Assert_flat_only
      else Inr (line_fragments fd va vb))"

subsection \<open>Triangle rasterization\<close>

text \<open>
  The flat rasterizer first renames the three positions to \<open>a\<close>, \<open>b\<close>, \<open>c\<close> so
  that \<open>a\<close> is the leftmost one and \<open>b\<close> is not below \<open>c\<close>.
\<close>

definition order_vertices :: "Vec3 \<Rightarrow> Vec3 \<Rightarrow> Vec3 \<Rightarrow> Vec3 \<times> Vec3 \<times> Vec3" where
  "order_vertices pa pb pc =
     (if x3 pb < x3 pc \<and> x3 pb < x3 pa
      then (if y3 pa \<ge> y3 pc then (pb, pa, pc) else (pb, pc, pa))
      else if x3 pc < x3 pb \<and> x3 pc < x3 pa
      then (if y3 pa \<ge> y3 pb then (pc, pa, pb) else (pc, pb, pa))
      else (if y3 pc \<ge> y3 pb then (pa, pc, pb) else (pa, pb, pc)))"

text \<open>
  The body of every inner loop: the fragment of pixel \<open>(px, py)\<close>, its depth
  interpolated with the barycentric coordinates \<^verbatim>\<open>lambda_1\<close>, \<^verbatim>\<open>lambda_2\<close>. Both are
  quotients with the same divisor, twice the signed area of the triangle.
\<close>

definition barycentric_divisor :: "Vec3 \<Rightarrow> Vec3 \<Rightarrow> Vec3 \<Rightarrow> real" where
  "barycentric_divisor a b c =
     (y3 b - y3 c) * (x3 a - x3 c) + (x3 c - x3 b) * (y3 a - y3 c)"

definition tri_point ::
  "nat \<Rightarrow> ClippedVertex \<Rightarrow> Vec3 \<Rightarrow> Vec3 \<Rightarrow> Vec3 \<Rightarrow> int \<Rightarrow> int \<Rightarrow> Fragment" where
  "tri_point fd va a b c px py =
     (let den = barycentric_divisor a b c;
          lambda_1 = ((y3 b - y3 c) * (of_int px + 0.5 - x3 c)
                      + (x3 c - x3 b) * (of_int py + 0.5 - y3 c)) / den;
          lambda_2 = ((y3 c - y3 a) * (of_int px + 0.5 - x3 c)
                      + (x3 a - x3 c) * (of_int py + 0.5 - y3 c)) / den
      in point fd va px py
           (lambda_1 * z3 a + lambda_2 * z3 b + (1 - lambda_1 - lambda_2) * z3 c))"

text \<open>
  The bounds of the inner loops over \<open>y\<close>. The lower bound is
  \<^verbatim>\<open>std::floor(y_min - 0.5f) + 1\<close> (pixel centres strictly above \<open>y_min\<close>) or
  \<^verbatim>\<open>std::floor(0.5f - y_min) * (-1)\<close> (centres at or above \<open>y_min\<close>); the upper bound is
  \<^verbatim>\<open>std::floor(y_max - 0.5f)\<close> (centres at or below \<open>y_max\<close>) or
  \<^verbatim>\<open>std::floor(0.5f - y_max) * (-1) - 1\<close> (centres strictly below \<open>y_max\<close>).
\<close>

definition y_first :: "bool \<Rightarrow> real \<Rightarrow> int" where
  "y_first inclusive y_min =
     (if inclusive then \<lfloor>0.5 - y_min\<rfloor> * (- 1) else \<lfloor>y_min - 0.5\<rfloor> + 1)"

definition y_last :: "bool \<Rightarrow> real \<Rightarrow> int" where
  "y_last inclusive y_max =
     (if inclusive then \<lfloor>y_max - 0.5\<rfloor> else \<lfloor>0.5 - y_max\<rfloor> * (- 1) - 1)"

text \<open>
  The loops over \<open>x\<close> all have the shape
  \<^verbatim>\<open>for ( ; x <= x_lim; x++) { for (y = first; y <= last; y++) emit; y_max += d_max; y_min += d_min; }\<close>.
  They differ in the bounds of the inner loop, in the limit and in the increments. The
  result is the emitted fragments and the values of \<open>x\<close>, \<open>y_max\<close>, \<open>y_min\<close> after
  the loop.
\<close>

function tri_loop ::
  "(int \<Rightarrow> int \<Rightarrow> Fragment) \<Rightarrow> bool \<Rightarrow> bool \<Rightarrow> real \<Rightarrow> real \<Rightarrow> real \<Rightarrow>
   int \<Rightarrow> real \<Rightarrow> real \<Rightarrow> Fragment list \<times> int \<times> real \<times> real" where
  "tri_loop pt lo_incl hi_incl x_lim d_max d_min px y_max y_min =
     (if real_of_int px \<le> x_lim
      then (case tri_loop pt lo_incl hi_incl x_lim d_max d_min (px + 1)
                   (y_max + d_max) (y_min + d_min) of
              (fs, r) \<Rightarrow>
                (map (pt px) [y_first lo_incl y_min .. y_last hi_incl y_max] @ fs, r))
      else ([], px, y_max, y_min))"
  by pat_completeness auto
termination
  by (relation "measure (\<lambda>(pt, lo_incl, hi_incl, x_lim, d_max, d_min, px, y_max, y_min).
                            nat (\<lfloor>x_lim\<rfloor> - px + 1))")
     (auto simp: le_floor_iff)

declare tri_loop.simps [simp del]

text \<open>
  The divisions of the flat rasterizer. Each branch computes slopes, whose divisors are
  differences of x coordinates: \<open>dividing_by\<close> lists the divisors of the branch and
  yields \<open>Not_finite\<close> when one of them is zero. The barycentric coordinates are
  computed in the body of the inner loops only, so their divisor matters when a fragment
  is emitted: \<open>interpolating\<close> yields \<open>Not_finite\<close> when fragments are emitted and
  that divisor is zero.
\<close>

definition dividing_by :: "real list \<Rightarrow> error + 'a \<Rightarrow> error + 'a" where
  "dividing_by divisors r = (if 0 \<in> set divisors then Inl Not_finite else r)"

definition interpolating :: "Vec3 \<Rightarrow> Vec3 \<Rightarrow> Vec3 \<Rightarrow> Fragment list \<Rightarrow> error + Fragment list" where
  "interpolating a b c fs =
     (if fs \<noteq> [] \<and> barycentric_divisor a b c = 0 then Inl Not_finite else Inr fs)"

text \<open>
  The flat rasterizer (the branch \<^verbatim>\<open>Pipeline_Interp_Flat\<close> of
  \<^verbatim>\<open>rasterize_triangle\<close>): three corner cases for two vertices on one vertical line,
  then the general case in two sweeps.
\<close>

definition flat_triangle ::
  "nat \<Rightarrow> ClippedVertex \<Rightarrow> ClippedVertex \<Rightarrow> ClippedVertex \<Rightarrow> error + Fragment list" where
  "flat_triangle fd va vb vc =
     (case order_vertices (cv_fb_position va) (cv_fb_position vb) (cv_fb_position vc) of
        (a, b, c) \<Rightarrow>
     (let ax = x3 a; ay = y3 a; bx = x3 b; by = y3 b; cx = x3 c; cy = y3 c;
          pt = tri_point fd va a b c
      in if \<bar>ax - bx\<bar> < FLT_EPSILON
         then dividing_by [ax - cx, bx - cx] (interpolating a b c
           (let slope_high = (if ay > by then (ay - cy) / (ax - cx) else (by - cy) / (bx - cx));
                slope_low = (if ay > by then (by - cy) / (bx - cx) else (ay - cy) / (ax - cx));
                y_max = (if ay > by then ay + slope_high * (of_int \<lfloor>ax\<rfloor> + 0.5 - ax)
                         else by + slope_low * (of_int \<lfloor>bx\<rfloor> + 0.5 - bx));
                y_min = (if ay > by then by + slope_low * (of_int \<lfloor>bx\<rfloor> + 0.5 - bx)
                         else ay + slope_high * (of_int \<lfloor>ax\<rfloor> + 0.5 - ax))
            in if slope_high \<ge> 0
               then fst (tri_loop pt False True cx slope_high slope_low \<lfloor>ax\<rfloor> y_max y_min)
               else if slope_low < 0
               then fst (tri_loop pt True False cx slope_high slope_low \<lfloor>ax\<rfloor> y_max y_min)
               else fst (tri_loop pt False False cx slope_high slope_low \<lfloor>ax\<rfloor> y_max y_min)))
         else if \<bar>ax - cx\<bar> < FLT_EPSILON
         then dividing_by [ax - bx, cx - bx, bx - cx] (interpolating a b c
           (let slope_high = (if ay > cy then (ay - by) / (ax - bx) else (by - cy) / (bx - cx));
                slope_low = (if ay > cy then (cy - by) / (cx - bx) else (ay - by) / (ax - bx));
                y_max = (if ay > cy then ay + slope_high * (of_int \<lfloor>ax\<rfloor> + 0.5 - ax)
                         else cy + slope_low * (of_int \<lfloor>cx\<rfloor> + 0.5 - cx));
                y_min = (if ay > cy then cy + slope_low * (of_int \<lfloor>cx\<rfloor> + 0.5 - cx)
                         else ay + slope_high * (of_int \<lfloor>ax\<rfloor> + 0.5 - ax))
            in if slope_high \<ge> 0
               then fst (tri_loop pt False True bx slope_high slope_low \<lfloor>ax\<rfloor> y_max y_min)
               else if slope_low < 0
               then fst (tri_loop pt True False bx slope_high slope_low \<lfloor>ax\<rfloor> y_max y_min)
               else fst (tri_loop pt False False bx slope_high slope_low \<lfloor>ax\<rfloor> y_max y_min)))
         else if \<bar>bx - cx\<bar> < FLT_EPSILON
         then dividing_by [bx - ax, cx - ax] (interpolating a b c
           (let slope_high = (by - ay) / (bx - ax);
                slope_low = (cy - ay) / (cx - ax);
                y_max = ay + (of_int \<lfloor>ax\<rfloor> + 0.5 - ax) * slope_high;
                y_min = ay + (of_int \<lfloor>ax\<rfloor> + 0.5 - ax) * slope_low
            in if slope_low \<ge> 0
               then fst (tri_loop pt False True bx slope_high slope_low \<lfloor>ax\<rfloor> y_max y_min)
               else if slope_high < 0
               then fst (tri_loop pt True False bx slope_high slope_low \<lfloor>ax\<rfloor> y_max y_min)
               else fst (tri_loop pt True True bx slope_high slope_low \<lfloor>ax\<rfloor> y_max y_min)))
         else dividing_by [bx - ax, cx - ax, bx - cx] (interpolating a b c
           (let s1 = (by - ay) / (bx - ax);
                s2 = (cy - ay) / (cx - ax);
                slope_high = (if s1 < s2 then s2 else s1);
                slope_low = (if s1 < s2 then s1 else s2);
                y_max0 = ay + slope_high * (of_int \<lfloor>ax\<rfloor> + 0.5 - ax);
                y_min0 = ay + slope_low * (of_int \<lfloor>ax\<rfloor> + 0.5 - ax)
            in case (if slope_low \<ge> 0
                     then tri_loop pt False True (min bx cx) slope_high slope_low
                            \<lfloor>ax\<rfloor> y_max0 y_min0
                     else if slope_high \<le> 0
                     then tri_loop pt True False (min bx cx) slope_high slope_low
                            \<lfloor>ax\<rfloor> y_max0 y_min0
                     else tri_loop pt True True (min bx cx) slope_high slope_low
                            \<lfloor>ax\<rfloor> y_max0 y_min0) of
                 (fs, px, y_max1, y_min1) \<Rightarrow>
                   fs @
                   (let x_max = (if bx > cx then bx else cx);
                        y_max = y_max1 - slope_high;
                        y_min = y_min1 - slope_low;
                        slope_other = (by - cy) / (bx - cx)
                    in if slope_other > 0
                       then fst (tri_loop pt False True x_max slope_high slope_other px
                                   (y_max + slope_high) (y_min + slope_other))
                       else if slope_other < 0
                       then fst (tri_loop pt False True x_max slope_other slope_low px
                                   (y_max + slope_other) (y_min + slope_low))
                       else if slope_high < 0
                       then fst (tri_loop pt True True x_max slope_high 0 px
                                   (y_max + slope_high) y_min)
                       else fst (tri_loop pt False True x_max 0 slope_low px
                                   y_max (y_min + slope_low)))))))"

text \<open>
  \<^verbatim>\<open>rasterize_triangle\<close>: the branch for \<^verbatim>\<open>Smooth\<close> calls the instance with the
  interpolation mode replaced by \<^verbatim>\<open>Flat\<close>, and the branch for \<^verbatim>\<open>Correct\<close> calls the
  instance with the mode replaced by \<^verbatim>\<open>Smooth\<close> (both are marked as placeholders in the
  source).
\<close>

function rasterize_triangle ::
  "Flags \<Rightarrow> nat \<Rightarrow> ClippedVertex \<Rightarrow> ClippedVertex \<Rightarrow> ClippedVertex \<Rightarrow>
   error + Fragment list" where
  "rasterize_triangle flags fd va vb vc =
     (case Interp flags of
        Interp_Flat \<Rightarrow> flat_triangle fd va vb vc
      | Interp_Smooth \<Rightarrow> rasterize_triangle (flags\<lparr>Interp := Interp_Flat\<rparr>) fd va vb vc
      | Interp_Correct \<Rightarrow> rasterize_triangle (flags\<lparr>Interp := Interp_Smooth\<rparr>) fd va vb vc)"
  by pat_completeness auto
termination
  by (relation "measure (\<lambda>(flags, fd, va, vb, vc).
                   case Interp flags of Interp_Flat \<Rightarrow> 0 | Interp_Smooth \<Rightarrow> 1
                   | Interp_Correct \<Rightarrow> 2)")
     auto

declare rasterize_triangle.simps [simp del]

subsection \<open>The entry point \<^verbatim>\<open>run\<close>\<close>

record Vertex =
  vertex_attributes :: "real list"

text \<open>The rasterization loops of \<^verbatim>\<open>run\<close>, over pairs and triples of clipped vertices.\<close>

fun rasterize_lines :: "Flags \<Rightarrow> nat \<Rightarrow> ClippedVertex list \<Rightarrow> error + Fragment list" where
  "rasterize_lines flags fd (a # b # rest) =
     (case rasterize_line flags fd a b of
        Inl e \<Rightarrow> Inl e
      | Inr fs \<Rightarrow>
          (case rasterize_lines flags fd rest of
             Inl e \<Rightarrow> Inl e
           | Inr gs \<Rightarrow> Inr (fs @ gs)))"
| "rasterize_lines flags fd _ = Inr []"

fun rasterize_triangles :: "Flags \<Rightarrow> nat \<Rightarrow> ClippedVertex list \<Rightarrow> error + Fragment list" where
  "rasterize_triangles flags fd (a # b # c # rest) =
     (case rasterize_triangle flags fd a b c of
        Inl e \<Rightarrow> Inl e
      | Inr fs \<Rightarrow>
          (case rasterize_triangles flags fd rest of
             Inl e \<Rightarrow> Inl e
           | Inr gs \<Rightarrow> Inr (fs @ gs)))"
| "rasterize_triangles flags fd _ = Inr []"

text \<open>
  What a call of \<^verbatim>\<open>run\<close> leaves behind: the framebuffer, the warning (if any), the
  trace of the calls of \<^verbatim>\<open>shade_fragment\<close> and the trace of the calls of the
  framebuffer accessors.
\<close>

record run_result =
  framebuffer :: Framebuffer
  warned :: "diagnostic option"
  shade_trace :: "(Fragment \<times> ShadedFragment) list"
  access_trace :: "access list"

text \<open>The stages of \<^verbatim>\<open>run\<close> up to the fragment list.\<close>

definition shade_vertices :: "'p Program \<Rightarrow> 'p \<Rightarrow> Vertex list \<Rightarrow> ShadedVertex list" where
  "shade_vertices prog parameters vertices =
     map (\<lambda>v. case shade_vertex prog parameters (vertex_attributes v) of
                 (pos, attrs) \<Rightarrow> \<lparr>clip_position = pos, sv_attributes = attrs\<rparr>) vertices"

definition fragments_of ::
  "PrimitiveType \<Rightarrow> 'p Program \<Rightarrow> Flags \<Rightarrow> Vertex list \<Rightarrow> 'p \<Rightarrow> Framebuffer \<Rightarrow>
   error + Fragment list" where
  "fragments_of primitive_type prog flags vertices parameters F =
     (let shaded_vertices = shade_vertices prog parameters vertices
      in case primitive_type of
           Lines \<Rightarrow>
             (case emit_vertices F (clip_lines flags shaded_vertices) of
                Inl e \<Rightarrow> Inl e
              | Inr clipped_vertices \<Rightarrow> rasterize_lines flags (FD prog) clipped_vertices)
         | Triangles \<Rightarrow>
             (case emit_vertices F (clip_triangles flags shaded_vertices) of
                Inl e \<Rightarrow> Inl e
              | Inr clipped_vertices \<Rightarrow>
                  rasterize_triangles flags (FD prog) clipped_vertices))"

definition run ::
  "PrimitiveType \<Rightarrow> 'p Program \<Rightarrow> Flags \<Rightarrow> Vertex list \<Rightarrow> 'p \<Rightarrow> Framebuffer option \<Rightarrow>
   error + run_result" where
  "run primitive_type prog flags vertices parameters framebuffer_ptr =
     (case framebuffer_ptr of
        None \<Rightarrow> Inl Null_framebuffer
      | Some F \<Rightarrow>
          (case fragments_of primitive_type prog flags vertices parameters F of
             Inl e \<Rightarrow> Inl e
           | Inr fragments \<Rightarrow>
               (case process_fragments prog flags parameters fragments
                       \<lparr>fb = F, out_of_range = 0, shaded = [], accessed = []\<rparr> of
                  Inl e \<Rightarrow> Inl e
                | Inr st \<Rightarrow>
                    Inr \<lparr>framebuffer = fb st,
                         warned = warning primitive_type (out_of_range st),
                         shade_trace = shaded st,
                         access_trace = accessed st\<rparr>)))"

text \<open>The pixel of a fragment, as the fragment loop computes it.\<close>

definition pixel :: "Fragment \<Rightarrow> int \<times> int" where
  "pixel f = (\<lfloor>x3 (fb_position f)\<rfloor>, \<lfloor>y3 (fb_position f)\<rfloor>)"

subsection \<open>Concrete inputs\<close>

text \<open>
  Inputs on which the pipeline is evaluated below: a configuration (depth mode
  \<^verbatim>\<open>Always\<close>, both writes enabled, blend mode \<^verbatim>\<open>Replace\<close>, flat interpolation), a
  framebuffer cleared to depth 1 and colour \<open>(0, 0, 1)\<close>, a program that passes the
  four vertex attributes on as the clip position and shades every fragment with colour
  \<open>(1, 0, 0)\<close> and opacity \<open>1 / 2\<close>, and a fragment of pixel \<open>(0, 0)\<close> at depth
  \<open>z\<close>.
\<close>

definition base_flags :: Flags where
  "base_flags = \<lparr>Depth = Depth_Always, DepthWriteDisableBit = False,
     ColorWriteDisableBit = False, Blend = Blend_Replace, Interp = Interp_Flat\<rparr>"

definition blue_fb :: "nat \<Rightarrow> nat \<Rightarrow> Framebuffer" where
  "blue_fb w h = \<lparr>width = w, height = h, depths = (\<lambda>_. 1), colors = (\<lambda>_. (0, 0, 1))\<rparr>"

definition red_program :: "unit Program" where
  "red_program =
     \<lparr>shade_vertex = (\<lambda>_ a. case a of
          [x, y, z, w] \<Rightarrow> (\<lparr>x4 = x, y4 = y, z4 = z, w4 = w\<rparr>, [])
        | _ \<Rightarrow> (\<lparr>x4 = 0, y4 = 0, z4 = 0, w4 = 1\<rparr>, [])),
      shade_fragment = (\<lambda>_ _ _. ((1, 0, 0), 1 / 2)),
      FD = 0\<rparr>"

definition frag_at :: "real \<Rightarrow> Fragment" where
  "frag_at z =
     \<lparr>fb_position = \<lparr>x3 = 0.5, y3 = 0.5, z3 = z\<rparr>, attributes = [], derivatives = []\<rparr>"

text \<open>A shaded vertex with clip position \<open>(px, py, pz, pw)\<close>.\<close>

definition shaded_at :: "real \<Rightarrow> real \<Rightarrow> real \<Rightarrow> real \<Rightarrow> real list \<Rightarrow> ShadedVertex" where
  "shaded_at px py pz pw atts =
     \<lparr>clip_position = \<lparr>x4 = px, y4 = py, z4 = pz, w4 = pw\<rparr>, sv_attributes = atts\<rparr>"

text \<open>A clipped vertex with framebuffer position \<open>(px, py, pz)\<close>.\<close>

definition clipped_at :: "real \<Rightarrow> real \<Rightarrow> real \<Rightarrow> real \<Rightarrow> real list \<Rightarrow> ClippedVertex" where
  "clipped_at px py pz iw atts =
     \<lparr>cv_fb_position = \<lparr>x3 = px, y3 = py, z3 = pz\<rparr>, inv_w = iw, cv_attributes = atts\<rparr>"

text \<open>
  Input vertices for the program above: a triangle whose clip positions map to the
  framebuffer positions \<open>(0, 0)\<close>, \<open>(4, 0)\<close>, \<open>(0, 4)\<close> of a 2 by 2 framebuffer,
  so that it reaches outside of it, and a line whose clip positions map to the
  framebuffer positions \<open>(2, 1)\<close> and \<open>(2, 4)\<close> of an 8 by 8 framebuffer.
\<close>

definition vertex :: "real list \<Rightarrow> Vertex" where
  "vertex atts = \<lparr>vertex_attributes = atts\<rparr>"


definition vertical_line :: "Vertex list" where
  "vertical_line = [vertex [- 1 / 2, - 3 / 4, 0, 1], vertex [- 1 / 2, 0, 0, 1]]"

section \<open>Properties\<close>

subsection \<open>The fragment loop\<close>


text \<open>
  The loop body and the loop never fail: the accessors are called after the range check
  only.
\<close>

lemma process_fragment_Inr:
  "process_fragment prog flags parameters f st =
     Inr (projr (process_fragment prog flags parameters f st))"
  by (auto simp: process_fragment_def depth_at_def color_at_def Let_def)

lemma process_fragments_Cons:
  "process_fragments prog flags parameters (f # fs) st =
     process_fragments prog flags parameters fs
       (projr (process_fragment prog flags parameters f st))"
  using process_fragment_Inr [of prog flags parameters f st]
  by (cases "process_fragment prog flags parameters f st") simp_all

lemma process_fragments_Inr:
  "process_fragments prog flags parameters fs st =
     Inr (projr (process_fragments prog flags parameters fs st))"
proof (induction fs arbitrary: st)
  case Nil
  show ?case by simp
next
  case (Cons f fs)
  show ?case
    unfolding process_fragments_Cons by (rule Cons.IH)
qed

lemma process_fragment_dims:
  "width (fb (projr (process_fragment prog flags parameters f st))) = width (fb st) \<and>
   height (fb (projr (process_fragment prog flags parameters f st))) = height (fb st)"
  by (auto simp: process_fragment_def depth_at_def color_at_def Let_def)

lemma in_range_dims:
  "width F = width G \<Longrightarrow> height F = height G \<Longrightarrow> in_range F = in_range G"
  by (auto simp: in_range_def fun_eq_iff)

lemma in_range_step:
  "in_range (fb (projr (process_fragment prog flags parameters f st))) = in_range (fb st)"
  by (rule in_range_dims) (simp_all add: process_fragment_dims)





text \<open>What the loop does to the traces, the colours and the depths.\<close>

lemma depth_test_iff: "depth_test m d z \<longleftrightarrow> m \<noteq> Depth_Never"
  by (cases m) simp_all

lemma shaded_fragment_eq:
  "shaded_fragment prog parameters f =
   \<lparr>sf_fb_position = fb_position f,
    color = fst (shade_fragment prog parameters (attributes f) (derivatives f)),
    opacity = snd (shade_fragment prog parameters (attributes f) (derivatives f))\<rparr>"
  by (simp add: shaded_fragment_def split: prod.splits)

lemma process_fragment_shaded:
  "shaded (projr (process_fragment prog flags parameters f st)) =
   shaded st @ (if in_range (fb st) f \<and> Depth flags \<noteq> Depth_Never
                then [(f, shaded_fragment prog parameters f)] else [])"
  by (auto simp: process_fragment_def depth_at_def color_at_def in_range_def Let_def
        depth_test_iff)

lemma process_fragments_shaded:
  "shaded (projr (process_fragments prog flags parameters fs st)) =
   shaded st @ map (\<lambda>f. (f, shaded_fragment prog parameters f))
                (filter (\<lambda>f. in_range (fb st) f \<and> Depth flags \<noteq> Depth_Never) fs)"
  by (induction fs arbitrary: st)
     (simp_all add: process_fragments_Cons process_fragment_shaded in_range_step
        del: process_fragments.simps(2))



lemma process_fragment_color:
  "ColorWriteDisableBit flags \<Longrightarrow>
   colors (fb (projr (process_fragment prog flags parameters f st))) = colors (fb st)"
  by (auto simp: process_fragment_def depth_at_def color_at_def Let_def)

lemma process_fragments_color:
  "ColorWriteDisableBit flags \<Longrightarrow>
   colors (fb (projr (process_fragments prog flags parameters fs st))) = colors (fb st)"
  by (induction fs arbitrary: st)
     (simp_all add: process_fragments_Cons process_fragment_color
        del: process_fragments.simps(2))

lemma process_fragment_depth:
  "\<not> DepthWriteDisableBit flags \<Longrightarrow>
   depths (fb (projr (process_fragment prog flags parameters f st))) q =
   (if in_range (fb st) f \<and> Depth flags \<noteq> Depth_Never \<and> pixel f = q
    then z3 (fb_position f) else depths (fb st) q)"
  by (auto simp: process_fragment_def depth_at_def color_at_def in_range_def pixel_def
        Let_def depth_test_iff)

lemma process_fragments_depth:
  "\<not> DepthWriteDisableBit flags \<Longrightarrow>
   depths (fb (projr (process_fragments prog flags parameters fs st))) q =
   (case filter (\<lambda>f. pixel f = q)
           (filter (\<lambda>f. in_range (fb st) f \<and> Depth flags \<noteq> Depth_Never) fs) of
      [] \<Rightarrow> depths (fb st) q
    | g # gs \<Rightarrow> z3 (fb_position (last (g # gs))))"
proof (induction fs arbitrary: st)
  case Nil
  then show ?case by simp
next
  case (Cons f fs)
  from Cons.prems show ?case
    by (simp add: process_fragments_Cons Cons.IH in_range_step process_fragment_depth
          del: process_fragments.simps(2) split: list.splits)
qed

subsection \<open>Depth test and blending\<close>

text \<open>
  Claim C1 (depth mode \<^verbatim>\<open>Less\<close>: a fragment passes iff its depth is strictly less than
  the stored depth; of two fragments of one pixel with depths 0.3 then 0.7 the second is
  discarded and the stored depth stays 0.3). The code does not have this test. Evaluated
  on the claim's own example, on a framebuffer cleared to depth 1 and for any program:
  the second fragment is shaded as well, and the stored depth ends as 0.7.
\<close>

theorem depth_less_keeps_farther_fragment:
  "\<exists>st'. process_fragments prog (base_flags\<lparr>Depth := Depth_Less\<rparr>) parameters
            [frag_at 0.3, frag_at 0.7]
            \<lparr>fb = blue_fb 2 2, out_of_range = 0, shaded = [], accessed = []\<rparr> = Inr st' \<and>
         depths (fb st') (0, 0) = 0.7 \<and>
         shaded st' = [(frag_at 0.3, shaded_fragment prog parameters (frag_at 0.3)),
                       (frag_at 0.7, shaded_fragment prog parameters (frag_at 0.7))]"
  by (simp add: process_fragment_def depth_at_def color_at_def base_flags_def frag_at_def
        blue_fb_def Let_def)

text \<open>
  Claim C2 (blend mode \<^verbatim>\<open>Add\<close>: the stored colour becomes the previous colour plus the
  fragment colour times its opacity). The code stores the fragment colour. Evaluated on
  a pixel that holds \<open>(0, 0, 1)\<close> and a fragment shaded \<open>(1, 0, 0)\<close> with opacity
  \<open>1 / 2\<close>: the pixel ends as \<open>(1, 0, 0)\<close>, where the sum is \<open>(1 / 2, 0, 1)\<close>.
\<close>

theorem blend_add_stores_fragment_color:
  "(\<exists>st'. process_fragment red_program (base_flags\<lparr>Blend := Blend_Add\<rparr>) () (frag_at 0.5)
            \<lparr>fb = blue_fb 2 2, out_of_range = 0, shaded = [], accessed = []\<rparr> = Inr st' \<and>
          colors (fb st') (0, 0) = (1, 0, 0)) \<and>
   colors (blue_fb 2 2) (0, 0) = (0, 0, 1) \<and>
   shade_fragment red_program () (attributes (frag_at 0.5)) (derivatives (frag_at 0.5))
     = ((1, 0, 0), 1 / 2) \<and>
   (1, 0, 0) \<noteq> (0 + 1 * (1 / 2), 0 + 0 * (1 / 2), 1 + 0 * (1 / 2) :: real)"
  by (simp add: process_fragment_def depth_at_def color_at_def base_flags_def frag_at_def
        blue_fb_def Let_def red_program_def shaded_fragment_def)

text \<open>
  Claim C3 (blend mode \<^verbatim>\<open>Over\<close>: the stored colour becomes fragment colour times
  opacity plus previous colour times one minus opacity; \<open>(1, 0, 0)\<close> with opacity 0.5
  over \<open>(0, 0, 1)\<close> gives \<open>(0.5, 0, 0.5)\<close>). The code stores the fragment colour.
  Evaluated on the claim's own example: the pixel ends as \<open>(1, 0, 0)\<close>.
\<close>

theorem blend_over_stores_fragment_color:
  "(\<exists>st'. process_fragment red_program (base_flags\<lparr>Blend := Blend_Over\<rparr>) () (frag_at 0.5)
            \<lparr>fb = blue_fb 2 2, out_of_range = 0, shaded = [], accessed = []\<rparr> = Inr st' \<and>
          colors (fb st') (0, 0) = (1, 0, 0)) \<and>
   colors (blue_fb 2 2) (0, 0) = (0, 0, 1) \<and>
   shade_fragment red_program () (attributes (frag_at 0.5)) (derivatives (frag_at 0.5))
     = ((1, 0, 0), 1 / 2) \<and>
   (1, 0, 0) \<noteq> (1 * 0.5 + 0 * (1 - 0.5), 0 * 0.5 + 0 * (1 - 0.5), 0 * 0.5 + 1 * (1 - 0.5) :: real)"
  by (simp add: process_fragment_def depth_at_def color_at_def base_flags_def frag_at_def
        blue_fb_def Let_def red_program_def shaded_fragment_def)

subsection \<open>Clipping\<close>

text \<open>
  One call of \<^verbatim>\<open>clip_range\<close> that leaves a non-empty range shrinks the range, and its
  inequality holds on all of the new range.
\<close>

lemma clip_range_sound:
  assumes "fst (clip_range l dl r dr rng) < snd (clip_range l dl r dr rng)"
  shows "fst rng \<le> fst (clip_range l dl r dr rng) \<and>
         snd (clip_range l dl r dr rng) \<le> snd rng \<and>
         (\<forall>t. fst (clip_range l dl r dr rng) \<le> t \<and> t \<le> snd (clip_range l dl r dr rng)
              \<longrightarrow> l + t * dl \<le> r + t * dr)"
proof (cases rng)
  case (Pair mn mx)
  consider (par) "dr = dl" | (up) "dr > dl" | (down) "dr < dl" by linarith
  then show ?thesis
  proof cases
    case par
    with assms Pair show ?thesis
      by (auto simp: clip_range_def split: if_splits)
  next
    case up
    have "l + t * dl \<le> r + t * dr" if "(l - r) / (dr - dl) \<le> t" for t
    proof -
      from up that have "l - r \<le> t * (dr - dl)" by (simp add: pos_divide_le_eq)
      then show ?thesis by (simp add: algebra_simps)
    qed
    with up assms Pair show ?thesis
      by (auto simp: clip_range_def)
  next
    case down
    have "l + t * dl \<le> r + t * dr" if "t \<le> (l - r) / (dr - dl)" for t
    proof -
      from down that have "l - r \<le> t * (dr - dl)" by (simp add: neg_le_divide_eq)
      then show ?thesis by (simp add: algebra_simps)
    qed
    with down assms Pair show ?thesis
      by (auto simp: clip_range_def)
  qed
qed

text \<open>On the range left by the six calls, the interpolated position is in the clip volume.\<close>

lemma clip_t_range_sound:
  assumes rng: "clip_t_range va vb = (min_t, max_t)" and ne: "min_t < max_t"
    and t: "min_t \<le> t" "t \<le> max_t"
  shows "0 \<le> min_t \<and> max_t \<le> 1 \<and> in_clip_volume (clip_position (lerp va vb t))"
proof -
  define a where "a = clip_position va"
  define b where "b = clip_position vb"
  define r1 where "r1 = clip_range (- w4 a) (- (w4 b - w4 a)) (x4 a) (x4 b - x4 a) (0, 1)"
  define r2 where "r2 = clip_range (x4 a) (x4 b - x4 a) (w4 a) (w4 b - w4 a) r1"
  define r3 where "r3 = clip_range (- w4 a) (- (w4 b - w4 a)) (y4 a) (y4 b - y4 a) r2"
  define r4 where "r4 = clip_range (y4 a) (y4 b - y4 a) (w4 a) (w4 b - w4 a) r3"
  define r5 where "r5 = clip_range (- w4 a) (- (w4 b - w4 a)) (z4 a) (z4 b - z4 a) r4"
  define r6 where "r6 = clip_range (z4 a) (z4 b - z4 a) (w4 a) (w4 b - w4 a) r5"
  have r6: "r6 = (min_t, max_t)"
    using rng by (simp add: clip_t_range_def Let_def r6_def r5_def r4_def r3_def r2_def
        r1_def a_def b_def)
  have n6: "fst r6 < snd r6" using r6 ne by simp
  note s6 = clip_range_sound [OF n6 [unfolded r6_def], folded r6_def]
  have n5: "fst r5 < snd r5" using s6 n6 by linarith
  note s5 = clip_range_sound [OF n5 [unfolded r5_def], folded r5_def]
  have n4: "fst r4 < snd r4" using s5 n5 by linarith
  note s4 = clip_range_sound [OF n4 [unfolded r4_def], folded r4_def]
  have n3: "fst r3 < snd r3" using s4 n4 by linarith
  note s3 = clip_range_sound [OF n3 [unfolded r3_def], folded r3_def]
  have n2: "fst r2 < snd r2" using s3 n3 by linarith
  note s2 = clip_range_sound [OF n2 [unfolded r2_def], folded r2_def]
  have n1: "fst r1 < snd r1" using s2 n2 by linarith
  note s1 = clip_range_sound [OF n1 [unfolded r1_def], folded r1_def]
  have t6: "fst r6 \<le> t" "t \<le> snd r6" using r6 t by simp_all
  have t5: "fst r5 \<le> t" "t \<le> snd r5" using s6 t6 by linarith+
  have t4: "fst r4 \<le> t" "t \<le> snd r4" using s5 t5 by linarith+
  have t3: "fst r3 \<le> t" "t \<le> snd r3" using s4 t4 by linarith+
  have t2: "fst r2 \<le> t" "t \<le> snd r2" using s3 t3 by linarith+
  have t1: "fst r1 \<le> t" "t \<le> snd r1" using s2 t2 by linarith+
  have c1: "- w4 a + t * (- (w4 b - w4 a)) \<le> x4 a + t * (x4 b - x4 a)" using s1 t1 by blast
  have c2: "x4 a + t * (x4 b - x4 a) \<le> w4 a + t * (w4 b - w4 a)" using s2 t2 by blast
  have c3: "- w4 a + t * (- (w4 b - w4 a)) \<le> y4 a + t * (y4 b - y4 a)" using s3 t3 by blast
  have c4: "y4 a + t * (y4 b - y4 a) \<le> w4 a + t * (w4 b - w4 a)" using s4 t4 by blast
  have c5: "- w4 a + t * (- (w4 b - w4 a)) \<le> z4 a + t * (z4 b - z4 a)" using s5 t5 by blast
  have c6: "z4 a + t * (z4 b - z4 a) \<le> w4 a + t * (w4 b - w4 a)" using s6 t6 by blast
  have lo: "0 \<le> min_t"
    using s1 s2 s3 s4 s5 s6 r6 by (simp del: fst_conv snd_conv) (metis fst_conv order_trans)
  have hi: "max_t \<le> 1"
    using s1 s2 s3 s4 s5 s6 r6 by (metis snd_conv order_trans)
  have "in_clip_volume (clip_position (lerp va vb t))"
    using c1 c2 c3 c4 c5 c6
    by (simp add: in_clip_volume_def lerp_def a_def b_def algebra_simps)
  with lo hi show ?thesis by simp
qed

text \<open>
  In exact arithmetic every vertex \<^verbatim>\<open>clip_line\<close> emits is in the clip volume, in
  every interpolation mode.
\<close>

lemma clip_line_in_clip_volume:
  assumes "v \<in> set (clip_line flags va vb)"
  shows "in_clip_volume (clip_position v)"
proof -
  obtain min_t max_t where rng: "clip_t_range va vb = (min_t, max_t)"
    by (cases "clip_t_range va vb")
  from assms rng have ne: "min_t < max_t"
    by (auto simp: clip_line_def split: if_splits)
  have at_min: "in_clip_volume (clip_position (lerp va vb min_t))"
    using clip_t_range_sound [OF rng ne, of min_t] ne by simp
  have at_max: "in_clip_volume (clip_position (lerp va vb max_t))"
    using clip_t_range_sound [OF rng ne, of max_t] ne by simp
  have p0: "clip_position (lerp va vb 0) = clip_position va"
    by (simp add: lerp_def)
  have p1: "clip_position (lerp va vb 1) = clip_position vb"
    by (simp add: lerp_def)
  from assms rng ne consider
      "v = va" "min_t = 0"
    | "clip_position v = clip_position (lerp va vb min_t)"
    | "v = vb" "max_t = 1"
    | "clip_position v = clip_position (lerp va vb max_t)"
    by (auto simp: clip_line_def split: if_splits)
  then show ?thesis
  proof cases
    case 1
    with at_min p0 show ?thesis by simp
  next
    case 2
    with at_min show ?thesis by simp
  next
    case 3
    with at_max p1 show ?thesis by simp
  next
    case 4
    with at_max show ?thesis by simp
  qed
qed

text \<open>
  Claim C4 (every vertex emitted by \<^verbatim>\<open>clip_line\<close> and by \<^verbatim>\<open>clip_triangle\<close> satisfies
  \<open>-w \<le> x, y, z \<le> w\<close>, even when the input extends outside the clip volume). For
  \<^verbatim>\<open>clip_line\<close> this is \<open>clip_line_in_clip_volume\<close>. \<^verbatim>\<open>clip_triangle\<close> does not
  clip: evaluated on a triangle with the vertex \<open>(2, 0, 0, 1)\<close>, it emits that vertex,
  whose x exceeds its w.
\<close>

theorem clip_triangle_emits_outside_vertex:
  "clip_triangle flags (shaded_at 2 0 0 1 atts_a) (shaded_at 0 0 0 1 atts_b) (shaded_at 0 1 0 1 atts_c)
     = [shaded_at 2 0 0 1 atts_a, shaded_at 0 0 0 1 atts_b, shaded_at 0 1 0 1 atts_c] \<and>
   \<not> in_clip_volume (clip_position (shaded_at 2 0 0 1 atts_a))"
  by (simp add: clip_triangle_def in_clip_volume_def shaded_at_def)

text \<open>
  Claim C7: in flat interpolation mode, a vertex that \<^verbatim>\<open>clip_line\<close> emits at an
  interpolated parameter (the start when \<open>min_t > 0\<close>, the end when \<open>max_t < 1\<close>) has
  the interpolated position and the attributes of the first input vertex \<open>va\<close>,
  unchanged; and when no part of the line survives (\<open>min_t \<ge> max_t\<close>) nothing is
  emitted. Here \<open>(min_t, max_t)\<close> is the range the six calls of \<^verbatim>\<open>clip_range\<close> leave.
\<close>

theorem clip_line_flat:
  assumes "Interp flags = Interp_Flat" and "clip_t_range va vb = (min_t, max_t)"
  shows "(max_t \<le> min_t \<longrightarrow> clip_line flags va vb = []) \<and>
         (min_t < max_t \<longrightarrow>
            0 \<le> min_t \<and> max_t \<le> 1 \<and>
            clip_line flags va vb =
              [if 0 < min_t
               then \<lparr>clip_position = clip_position (lerp va vb min_t),
                     sv_attributes = sv_attributes va\<rparr>
               else va,
               if max_t < 1
               then \<lparr>clip_position = clip_position (lerp va vb max_t),
                     sv_attributes = sv_attributes va\<rparr>
               else vb])"
proof (cases "min_t < max_t")
  case False
  with assms show ?thesis by (simp add: clip_line_def)
next
  case True
  from clip_t_range_sound [OF assms(2) True, of min_t] True
  have b: "0 \<le> min_t" "max_t \<le> 1" by simp_all
  with True assms show ?thesis by (auto simp: clip_line_def)
qed

text \<open>
  The line from \<open>(-2, 0, 0, 1)\<close> to \<open>(2, 0, 0, 1)\<close> is cut at \<open>1 / 4\<close> and \<open>3 / 4\<close>:
  both emitted vertices carry the attribute \<open>1\<close> of the first vertex, not the
  interpolated \<open>2\<close> and \<open>4\<close>. The line from \<open>(2, 0, 0, 1)\<close> to \<open>(3, 0, 0, 1)\<close> is
  outside the volume: nothing is emitted.
\<close>

theorem clip_line_flat_witness:
  "clip_line base_flags (shaded_at (- 2) 0 0 1 [1]) (shaded_at 2 0 0 1 [5]) = [shaded_at (- 1) 0 0 1 [1], shaded_at 1 0 0 1 [1]] \<and>
   clip_line base_flags (shaded_at 2 0 0 1 [1]) (shaded_at 3 0 0 1 [5]) = []"
proof -
  have f: "Interp base_flags = Interp_Flat" by (simp add: base_flags_def)
  have r1: "clip_t_range (shaded_at (- 2) 0 0 1 [1]) (shaded_at 2 0 0 1 [5]) = (1 / 4, 3 / 4)"
    by (simp add: clip_t_range_def clip_range_def shaded_at_def Let_def)
  have r2: "clip_t_range (shaded_at 2 0 0 1 [1]) (shaded_at 3 0 0 1 [5]) = (0, - 1)"
    by (simp add: clip_t_range_def clip_range_def shaded_at_def Let_def)
  show ?thesis
    using clip_line_flat [OF f r1] clip_line_flat [OF f r2]
    by (simp add: lerp_def shaded_at_def)
qed

subsection \<open>Line rasterization\<close>

lemma line_loop_stop:
  "\<not> real_of_int u \<le> of_int \<lfloor>b\<rfloor> - 1 \<Longrightarrow>
   line_loop fd va vb reversed swapped adv a b u ve = ([], u, fst ve)"
  by (simp add: line_loop.simps)

lemma line_loop_step:
  "real_of_int u \<le> of_int \<lfloor>b\<rfloor> - 1 \<Longrightarrow>
   line_loop fd va vb reversed swapped adv a b u ve =
   (case line_loop fd va vb reversed swapped adv a b (u + 1) (adv ve) of
      (fs, u', v') \<Rightarrow>
        ((if swapped
          then point fd va (fst ve) u (interpolate_z va vb reversed a b u)
          else point fd va u (fst ve) (interpolate_z va vb reversed a b u)) # fs,
         u', v'))"
  by (subst line_loop.simps) simp

text \<open>The vertical segment from \<open>(2, 1)\<close> to \<open>(2, 4)\<close>, evaluated.\<close>

lemma line_fragments_2_1_to_2_4:
  "line_fragments fd (clipped_at 2 1 za wa atts_a) (clipped_at 2 4 zb wb atts_b) =
   [point fd (clipped_at 2 1 za wa atts_a) 2 1 zb,
    point fd (clipped_at 2 1 za wa atts_a) 2 2 ((zb * 1.5 + za * 1.5) / 3),
    point fd (clipped_at 2 1 za wa atts_a) 2 3 ((zb * 2.5 + za * 0.5) / 3)]"
  by (simp add: line_fragments_def FLT_EPSILON_def vertical_case_def
        Let_def line_loop_step line_loop_stop interpolate_z_def clipped_at_def)

text \<open>
  Claim C6: \<^verbatim>\<open>rasterize_line\<close> on the vertical segment from framebuffer position
  \<open>(2, 1)\<close> to \<open>(2, 4)\<close> emits exactly three fragments, of the pixels \<open>(2, 1)\<close>,
  \<open>(2, 2)\<close>, \<open>(2, 3)\<close> in this order, with the centres \<open>(2.5, 1.5)\<close>,
  \<open>(2.5, 2.5)\<close>, \<open>(2.5, 3.5)\<close>; this for all depths, attributes and \<^verbatim>\<open>inv_w\<close> of the
  two endpoints. Each fragment carries the attributes of the first endpoint and zero
  derivatives.
\<close>

theorem rasterize_line_vertical_2_1_to_2_4:
  "rasterize_line (flags\<lparr>Interp := Interp_Flat\<rparr>) fd
     (clipped_at 2 1 za wa atts_a) (clipped_at 2 4 zb wb atts_b)
   = Inr (map (\<lambda>(cx, cy, z).
            \<lparr>fb_position = \<lparr>x3 = cx, y3 = cy, z3 = z\<rparr>, attributes = atts_a,
             derivatives = replicate fd (0, 0)\<rparr>)
          [(2.5, 1.5, zb), (2.5, 2.5, (zb * 1.5 + za * 1.5) / 3),
           (2.5, 3.5, (zb * 2.5 + za * 0.5) / 3)]) \<and>
   map pixel (line_fragments fd (clipped_at 2 1 za wa atts_a) (clipped_at 2 4 zb wb atts_b))
   = [(2, 1), (2, 2), (2, 3)]"
  by (simp add: rasterize_line_def line_fragments_def FLT_EPSILON_def vertical_case_def
        Let_def line_loop_step line_loop_stop point_def interpolate_z_def clipped_at_def
        pixel_def)

text \<open>
  Claim C9: when the framebuffer x coordinates of the two endpoints have the same floor
  and their y coordinates have the same floor (both endpoints in one pixel),
  \<^verbatim>\<open>rasterize_line\<close> emits no fragment: in flat mode it returns without emitting, and
  in the other modes its assertion fails. Nothing is assumed on where the segment lies
  with respect to the pixel's diamond.
\<close>

theorem rasterize_line_same_pixel:
  assumes "\<lfloor>x3 (cv_fb_position va)\<rfloor> = \<lfloor>x3 (cv_fb_position vb)\<rfloor>"
    and "\<lfloor>y3 (cv_fb_position va)\<rfloor> = \<lfloor>y3 (cv_fb_position vb)\<rfloor>"
  shows "rasterize_line flags fd va vb =
         (if Interp flags = Interp_Flat then Inr [] else Inl Assert_flat_only)"
  using assms by (simp add: rasterize_line_def line_fragments_def)

text \<open>
  The segment from the centre \<open>(1 / 2, 1 / 2)\<close> of pixel \<open>(0, 0)\<close> to
  \<open>(9 / 10, 9 / 10)\<close> starts inside the diamond of the pixel and ends outside of it
  (at distance \<open>4 / 5 > 1 / 2\<close> from the centre in the 1-norm), within the pixel: no
  fragment.
\<close>

theorem rasterize_line_same_pixel_witness:
  "rasterize_line base_flags 0 (clipped_at (1 / 2) (1 / 2) 0 1 [])
     (clipped_at (9 / 10) (9 / 10) 0 1 []) = Inr [] \<and>
   \<bar>1 / 2 - 1 / 2 :: real\<bar> + \<bar>1 / 2 - 1 / 2 :: real\<bar> \<le> 1 / 2 \<and>
   \<bar>9 / 10 - 1 / 2 :: real\<bar> + \<bar>9 / 10 - 1 / 2 :: real\<bar> > 1 / 2"
  using rasterize_line_same_pixel
          [of "clipped_at (1 / 2) (1 / 2) 0 1 []" "clipped_at (9 / 10) (9 / 10) 0 1 []"
              base_flags 0]
  by (simp add: clipped_at_def base_flags_def)

subsection \<open>Triangle rasterization\<close>

lemma tri_loop_stop:
  "\<not> real_of_int px \<le> x_lim \<Longrightarrow>
   tri_loop pt lo_incl hi_incl x_lim d_max d_min px y_max y_min = ([], px, y_max, y_min)"
  by (simp add: tri_loop.simps)

lemma tri_loop_step:
  "real_of_int px \<le> x_lim \<Longrightarrow>
   tri_loop pt lo_incl hi_incl x_lim d_max d_min px y_max y_min =
   (case tri_loop pt lo_incl hi_incl x_lim d_max d_min (px + 1)
           (y_max + d_max) (y_min + d_min) of
      (fs, r) \<Rightarrow> (map (pt px) [y_first lo_incl y_min .. y_last hi_incl y_max] @ fs, r))"
  by (subst tri_loop.simps) simp

lemma floor_minus_one_real: "\<lfloor>- 1 :: real\<rfloor> = - 1"
  using floor_of_int [of "- 1", where ?'a = real] by simp

text \<open>
  The triangle with framebuffer positions \<open>(0, 0)\<close>, \<open>(4, 0)\<close>, \<open>(0, 4)\<close>, evaluated:
  the flat rasterizer emits ten fragments.
\<close>

lemma flat_triangle_0_4:
  "flat_triangle fd (clipped_at 0 0 za wa atts_a) (clipped_at 4 0 zb wb atts_b)
     (clipped_at 0 4 zc wc atts_c) =
   Inr (map (\<lambda>(px, py). tri_point fd (clipped_at 0 0 za wa atts_a)
          \<lparr>x3 = 0, y3 = 0, z3 = za\<rparr> \<lparr>x3 = 0, y3 = 4, z3 = zc\<rparr> \<lparr>x3 = 4, y3 = 0, z3 = zb\<rparr> px py)
     [(0, 0), (0, 1), (0, 2), (0, 3), (1, 0), (1, 1), (1, 2), (2, 0), (2, 1), (3, 0)])"
  by (simp add: flat_triangle_def order_vertices_def clipped_at_def FLT_EPSILON_def Let_def
        dividing_by_def interpolating_def barycentric_divisor_def
        tri_loop_step tri_loop_stop y_first_def y_last_def floor_minus_one_real upto.simps)

text \<open>
  The zero-area triangle with framebuffer positions \<open>(4, 3)\<close>, \<open>(4, 0)\<close>, \<open>(4, 6)\<close>:
  the first corner case divides by \<open>ax - cx = 0\<close> to get its slopes. The program goes
  on with infinite slopes and loop bounds; the embedding stops here.
\<close>

lemma flat_triangle_zero_area:
  "flat_triangle fd (clipped_at 4 3 za wa atts_a) (clipped_at 4 0 zb wb atts_b)
     (clipped_at 4 6 zc wc atts_c) = Inl Not_finite"
  by (simp add: flat_triangle_def order_vertices_def clipped_at_def FLT_EPSILON_def Let_def
        dividing_by_def)

text \<open>All three interpolation modes run the flat rasterizer.\<close>

lemma rasterize_triangle_flat:
  "rasterize_triangle (flags\<lparr>Interp := Interp_Flat\<rparr>) fd va vb vc = flat_triangle fd va vb vc"
  by (subst rasterize_triangle.simps) simp

lemma rasterize_triangle_smooth:
  "rasterize_triangle (flags\<lparr>Interp := Interp_Smooth\<rparr>) fd va vb vc = flat_triangle fd va vb vc"
  by (subst rasterize_triangle.simps) (simp add: rasterize_triangle_flat)

lemma rasterize_triangle_correct:
  "rasterize_triangle (flags\<lparr>Interp := Interp_Correct\<rparr>) fd va vb vc = flat_triangle fd va vb vc"
  by (subst rasterize_triangle.simps) (simp add: rasterize_triangle_smooth)

text \<open>
  Claim C5 (for some triangle with non-uniform \<^verbatim>\<open>inv_w\<close> and a non-trivial attribute,
  mode \<^verbatim>\<open>Correct\<close> gives a different attribute value at some interior pixel than mode
  \<^verbatim>\<open>Smooth\<close>). In the code the two modes emit the same fragments for every triangle,
  since both end in the flat rasterizer. Evaluated on the triangle \<open>(0, 0)\<close>,
  \<open>(4, 0)\<close>, \<open>(0, 4)\<close> with \<^verbatim>\<open>inv_w\<close> \<open>1\<close>, \<open>1 / 2\<close>, \<open>1 / 4\<close> and attribute
  \<open>1\<close>, \<open>2\<close>, \<open>3\<close>: in mode \<^verbatim>\<open>Correct\<close> every fragment, the one of the interior
  pixel \<open>(1, 1)\<close> included, carries the attribute \<open>1\<close> of the first vertex.
\<close>

theorem rasterize_triangle_correct_equals_smooth:
  "rasterize_triangle (flags\<lparr>Interp := Interp_Correct\<rparr>) fd va vb vc =
   rasterize_triangle (flags\<lparr>Interp := Interp_Smooth\<rparr>) fd va vb vc \<and>
   map_sum id (map (\<lambda>f. (pixel f, attributes f)))
     (rasterize_triangle (flags\<lparr>Interp := Interp_Correct\<rparr>) fd
        (clipped_at 0 0 (1 / 2) 1 [1]) (clipped_at 4 0 (1 / 2) (1 / 2) [2])
        (clipped_at 0 4 (1 / 2) (1 / 4) [3])) =
   Inr (map (\<lambda>p. (p, [1]))
     [(0, 0), (0, 1), (0, 2), (0, 3), (1, 0), (1, 1), (1, 2), (2, 0), (2, 1), (3, 0)])"
  unfolding rasterize_triangle_correct rasterize_triangle_smooth flat_triangle_0_4
  by (simp add: tri_point_def point_def pixel_def clipped_at_def Let_def)

subsection \<open>The entry point\<close>

text \<open>
  The stages before the fragment loop deliver a fragment list except in two cases: a
  division by zero (a clipped vertex with \<open>w = 0\<close>, or a triangle on which the flat
  rasterizer divides by zero), where the embedding stops; and a line pipeline outside
  flat interpolation mode (a combination the source does not instantiate), where the
  assertion of \<^verbatim>\<open>rasterize_line\<close> fails.
\<close>

lemma emit_vertices_failure:
  "emit_vertices F svs = Inl e \<Longrightarrow> e = Not_finite"
  by (induction svs arbitrary: e)
     (auto simp: emit_vertex_def Let_def split: sum.splits if_splits)

lemma rasterize_lines_failure:
  "rasterize_lines flags fd cvs = Inl e \<Longrightarrow> e = Assert_flat_only \<and> Interp flags \<noteq> Interp_Flat"
  by (induction flags fd cvs arbitrary: e rule: rasterize_lines.induct)
     (auto simp: rasterize_line_def split: sum.splits if_splits)

lemma flat_triangle_failure:
  "flat_triangle fd va vb vc = Inl e \<Longrightarrow> e = Not_finite"
  by (auto simp: flat_triangle_def dividing_by_def interpolating_def Let_def
        split: prod.splits if_splits)

lemma rasterize_triangle_failure:
  "rasterize_triangle flags fd va vb vc = Inl e \<Longrightarrow> e = Not_finite"
proof (induction flags fd va vb vc rule: rasterize_triangle.induct)
  case (1 flags fd va vb vc)
  from "1.prems" show ?case
    by (subst (asm) rasterize_triangle.simps)
       (auto split: InterpMode.splits dest: flat_triangle_failure "1.IH")
qed

lemma rasterize_triangles_failure:
  "rasterize_triangles flags fd cvs = Inl e \<Longrightarrow> e = Not_finite"
  by (induction flags fd cvs arbitrary: e rule: rasterize_triangles.induct)
     (auto split: sum.splits dest: rasterize_triangle_failure)

lemma fragments_of_failure:
  "fragments_of primitive_type prog flags vertices parameters F = Inl e \<Longrightarrow>
   e = Not_finite \<or>
   (e = Assert_flat_only \<and> primitive_type = Lines \<and> Interp flags \<noteq> Interp_Flat)"
  by (cases primitive_type)
     (auto simp: fragments_of_def Let_def split: sum.splits
        dest: emit_vertices_failure rasterize_lines_failure rasterize_triangles_failure)

text \<open>The two concrete pipelines, evaluated up to the fragment list.\<close>

lemma fragments_of_vertical_line:
  "Interp flags = Interp_Flat \<Longrightarrow>
   fragments_of Lines red_program flags vertical_line () (blue_fb 8 8) =
   Inr [point 0 (clipped_at 2 1 (1 / 2) 1 []) 2 1 (1 / 2),
        point 0 (clipped_at 2 1 (1 / 2) 1 []) 2 2 (1 / 2),
        point 0 (clipped_at 2 1 (1 / 2) 1 []) 2 3 (1 / 2)]"
proof -
  assume flat: "Interp flags = Interp_Flat"
  have clip: "emit_vertices (blue_fb 8 8)
          (clip_lines flags (shade_vertices red_program () vertical_line)) =
        Inr [clipped_at 2 1 (1 / 2) 1 [], clipped_at 2 4 (1 / 2) 1 []]"
    by (simp add: shade_vertices_def vertical_line_def vertex_def red_program_def
          clip_line_def clip_t_range_def clip_range_def Let_def emit_vertex_def blue_fb_def
          clipped_at_def)
  show ?thesis
    unfolding fragments_of_def Let_def PrimitiveType.case clip sum.case
    using flat
    by (simp add: rasterize_line_def line_fragments_2_1_to_2_4 red_program_def)
qed




text \<open>
  Claim C10: when the colour-write-disable bit is set, \<^verbatim>\<open>run\<close> leaves every colour
  cell of the framebuffer as it was, for every vertex list; \<^verbatim>\<open>shade_fragment\<close> is still
  called, once for each surviving fragment (inside the framebuffer, depth mode not
  \<^verbatim>\<open>Never\<close>) in order, with the attributes and derivatives of the fragment, and the
  shading trace holds the colour and opacity it returned; and when depth writes are
  enabled each depth cell ends as the depth of the last surviving fragment of its pixel
  (as it was when there is none). Here \<open>fragments\<close> is the list the rasterization stage
  returned (see \<open>fragments_of_failure\<close>).
\<close>

theorem run_color_write_disabled:
  assumes "ColorWriteDisableBit flags"
    and "fragments_of primitive_type prog flags vertices parameters F = Inr fragments"
  shows "\<exists>res. run primitive_type prog flags vertices parameters (Some F) = Inr res \<and>
           colors (framebuffer res) = colors F \<and>
           shade_trace res =
             map (\<lambda>f. (f, \<lparr>sf_fb_position = fb_position f,
                           color = fst (shade_fragment prog parameters
                                          (attributes f) (derivatives f)),
                           opacity = snd (shade_fragment prog parameters
                                            (attributes f) (derivatives f))\<rparr>))
               (filter (\<lambda>f. in_range F f \<and> Depth flags \<noteq> Depth_Never) fragments) \<and>
           (\<not> DepthWriteDisableBit flags \<longrightarrow>
              (\<forall>q. depths (framebuffer res) q =
                 (case filter (\<lambda>f. pixel f = q) (map fst (shade_trace res)) of
                    [] \<Rightarrow> depths F q
                  | g # gs \<Rightarrow> z3 (fb_position (last (g # gs))))))"
proof -
  let ?st = "\<lparr>fb = F, out_of_range = 0, shaded = [], accessed = []\<rparr>"
  let ?all = "projr (process_fragments prog flags parameters fragments ?st)"
  have all: "process_fragments prog flags parameters fragments ?st = Inr ?all"
    by (rule process_fragments_Inr)
  have r: "run primitive_type prog flags vertices parameters (Some F) =
             Inr \<lparr>framebuffer = fb ?all,
                  warned = warning primitive_type (out_of_range ?all),
                  shade_trace = shaded ?all, access_trace = accessed ?all\<rparr>"
    unfolding run_def option.case assms(2) sum.case by (subst all) simp
  show ?thesis
    unfolding r using assms(1)
    by (simp add: process_fragments_color process_fragments_shaded
          process_fragments_depth shaded_fragment_eq comp_def cong: list.case_cong)
qed

text \<open>
  The line pipeline with colour writes disabled, on an 8 by 8 framebuffer and the
  vertical line: the colours are unchanged, three fragments are shaded with the
  program's colour \<open>(1, 0, 0)\<close> and opacity \<open>1 / 2\<close>, and the depth of pixel
  \<open>(2, 2)\<close> changes from \<open>1\<close> to \<open>1 / 2\<close>.
\<close>

theorem run_color_write_disabled_witness:
  "\<exists>res. run Lines red_program (base_flags\<lparr>ColorWriteDisableBit := True\<rparr>) vertical_line ()
            (Some (blue_fb 8 8)) = Inr res \<and>
         colors (framebuffer res) = colors (blue_fb 8 8) \<and>
         map (\<lambda>(f, sf). (pixel f, color sf, opacity sf)) (shade_trace res) =
           [((2, 1), (1, 0, 0), 1 / 2), ((2, 2), (1, 0, 0), 1 / 2), ((2, 3), (1, 0, 0), 1 / 2)] \<and>
         depths (framebuffer res) (2, 2) = 1 / 2 \<and>
         depths (blue_fb 8 8) (2, 2) = 1"
proof -
  let ?fs = "[point 0 (clipped_at 2 1 (1 / 2) 1 []) 2 1 (1 / 2),
              point 0 (clipped_at 2 1 (1 / 2) 1 []) 2 2 (1 / 2),
              point 0 (clipped_at 2 1 (1 / 2) 1 []) 2 3 (1 / 2)]"
  have c: "ColorWriteDisableBit (base_flags\<lparr>ColorWriteDisableBit := True\<rparr>)" by simp
  have f: "Interp (base_flags\<lparr>ColorWriteDisableBit := True\<rparr>) = Interp_Flat"
    by (simp add: base_flags_def)
  from run_color_write_disabled [OF c fragments_of_vertical_line [OF f]]
  obtain res where
    r: "run Lines red_program (base_flags\<lparr>ColorWriteDisableBit := True\<rparr>) vertical_line ()
          (Some (blue_fb 8 8)) = Inr res"
    and col: "colors (framebuffer res) = colors (blue_fb 8 8)"
    and tr: "shade_trace res =
        map (\<lambda>f. (f, \<lparr>sf_fb_position = fb_position f,
                      color = fst (shade_fragment red_program ()
                                     (attributes f) (derivatives f)),
                      opacity = snd (shade_fragment red_program ()
                                       (attributes f) (derivatives f))\<rparr>))
          (filter (\<lambda>f. in_range (blue_fb 8 8) f \<and>
                  Depth (base_flags\<lparr>ColorWriteDisableBit := True\<rparr>) \<noteq> Depth_Never) ?fs)"
    and dep: "\<not> DepthWriteDisableBit (base_flags\<lparr>ColorWriteDisableBit := True\<rparr>) \<longrightarrow>
        (\<forall>q. depths (framebuffer res) q =
           (case filter (\<lambda>f. pixel f = q) (map fst (shade_trace res)) of
              [] \<Rightarrow> depths (blue_fb 8 8) q
            | g # gs \<Rightarrow> z3 (fb_position (last (g # gs)))))"
    by blast
  have tr': "map fst (shade_trace res) = ?fs"
    using tr by (simp add: in_range_def point_def blue_fb_def base_flags_def)
  have tr'': "map (\<lambda>(f, sf). (pixel f, color sf, opacity sf)) (shade_trace res) =
           [((2, 1), (1, 0, 0), 1 / 2), ((2, 2), (1, 0, 0), 1 / 2), ((2, 3), (1, 0, 0), 1 / 2)]"
    using tr
    by (simp add: in_range_def point_def blue_fb_def base_flags_def pixel_def red_program_def)
  have d: "depths (framebuffer res) (2, 2) = 1 / 2"
    using dep by (simp add: tr' base_flags_def pixel_def point_def)
  show ?thesis
    using r col d tr'' by (simp add: blue_fb_def)
qed

end
